theory Spec2Isabelle
  imports Main "HOL-Library.AList"
begin

section \<open>Python values used by the payment simulator\<close>

text \<open>
  Exceptions of the Python runtime that the modelled code can raise on its own
  (as opposed to the exception classes the repository declares).
\<close>

datatype py_error = ValueError | OverflowError | IndexError | TypeError

subsection \<open>Naive datetimes\<close>

text \<open>
  A \<open>datetime\<close> is the number of microseconds since 0001-01-01T00:00:00 in the proleptic
  Gregorian calendar, which is what Python's \<open>datetime\<close> compares and what adding a
  \<open>timedelta\<close> shifts. The construction \<open>datetime(year, month, day)\<close> raises
  \<open>ValueError\<close> outside the calendar, and an addition leaving the years 1..9999 raises
  \<open>OverflowError\<close>. Every reading of the clock (\<open>datetime.now()\<close>,
  \<open>datetime.utcnow()\<close>) is a parameter \<open>now\<close> of the operation that reads it, one
  reading for each call; a \<open>timedelta\<close> added to or taken from a clock reading is plain
  integer arithmetic, the clock being far from both ends of the calendar.
\<close>

type_synonym datetime = int

definition us_per_day :: int where
  "us_per_day = 86400000000"

definition us_per_hour :: int where
  "us_per_hour = 3600000000"

definition is_leap :: "int \<Rightarrow> bool" where
  "is_leap y = (y mod 4 = 0 \<and> (y mod 100 \<noteq> 0 \<or> y mod 400 = 0))"

definition days_in_month :: "int \<Rightarrow> int \<Rightarrow> int" where
  "days_in_month y m =
     (if m = 2 then (if is_leap y then 29 else 28)
      else if m = 4 \<or> m = 6 \<or> m = 9 \<or> m = 11 then 30 else 31)"

definition days_before_year :: "int \<Rightarrow> int" where
  "days_before_year y = (y - 1) * 365 + (y - 1) div 4 - (y - 1) div 100 + (y - 1) div 400"

definition days_before_month :: "int \<Rightarrow> int \<Rightarrow> int" where
  "days_before_month y m = sum_list (map (days_in_month y) [1 .. m - 1])"

definition ymd2ord :: "int \<Rightarrow> int \<Rightarrow> int \<Rightarrow> int" where
  "ymd2ord y m d = days_before_year y + days_before_month y m + d"

definition max_ordinal :: int where
  "max_ordinal = 3652059"

definition datetime_ymd :: "int \<Rightarrow> int \<Rightarrow> int \<Rightarrow> py_error + datetime" where
  "datetime_ymd y m d =
     (if y < 1 \<or> 9999 < y then Inl ValueError
      else if m < 1 \<or> 12 < m then Inl ValueError
      else if d < 1 \<or> days_in_month y m < d then Inl ValueError
      else Inr ((ymd2ord y m d - 1) * us_per_day))"

definition datetime_add :: "datetime \<Rightarrow> int \<Rightarrow> py_error + datetime" where
  "datetime_add t delta =
     (if t + delta < 0 \<or> max_ordinal * us_per_day \<le> t + delta then Inl OverflowError
      else Inr (t + delta))"

text \<open>The first instant after the month \<open>m\<close> of the year \<open>y\<close>: midnight of the first day
  of the following month. A card is valid through the last day of its expiry month.\<close>

definition end_of_month :: "int \<Rightarrow> int \<Rightarrow> datetime" where
  "end_of_month y m = (ymd2ord y m 1 - 1 + days_in_month y m) * us_per_day"

subsection \<open>Dictionaries\<close>

text \<open>
  A Python \<open>dict\<close> is an association list in insertion order: \<open>d.get(k)\<close> is
  \<open>map_of d k\<close>, \<open>d[k] = v\<close> is \<open>AList.update k v d\<close> (in place when the key is
  present, appended otherwise), \<open>del d[k]\<close> is \<open>AList.delete k d\<close> and
  \<open>d.values()\<close> is \<open>map snd d\<close>.
\<close>

type_synonym ('k, 'v) dict = "('k \<times> 'v) list"

section \<open>The issuing bank (\<open>bank_simulator/issuing_bank.py\<close>)\<close>

datatype CardStatus = ACTIVE | BLOCKED | EXPIRED | LOST_STOLEN | FRAUD_SUSPECT

datatype AccountType = DEBIT | CREDIT | PREPAID

record CardAccount =
  card_number :: string
  cardholder_name :: string
  exp_month :: int
  exp_year :: int
  cvv :: string
  status :: CardStatus
  account_type :: AccountType
  credit_limit :: int
  current_balance :: int
  account_balance :: int
  holds :: "(string, int) dict"
  velocity_limit :: int
  single_transaction_limit :: int

definition available_credit :: "CardAccount \<Rightarrow> int" where
  "available_credit a =
     (let holds_total = sum_list (map snd (holds a))
      in credit_limit a - current_balance a - holds_total)"

definition available_balance :: "CardAccount \<Rightarrow> int" where
  "available_balance a =
     (let holds_total = sum_list (map snd (holds a))
      in account_balance a - holds_total)"

text \<open>The funds \<open>authorize\<close> compares the amount with (also what
  \<open>get_account_status\<close> reports as \<open>available\<close>).\<close>

definition available :: "CardAccount \<Rightarrow> int" where
  "available a =
     (if account_type a = CREDIT then available_credit a else available_balance a)"

record AuthorizationRequest =
  request_id :: string
  card_number :: string
  exp_month :: int
  exp_year :: int
  cvv :: string
  amount :: int
  currency :: string
  merchant_id :: string
  merchant_name :: string
  merchant_category :: string

record AuthorizationResponse =
  request_id :: string
  approved :: bool
  auth_code :: "string option"
  decline_reason :: "string option"
  avs_result :: string
  cvv_result :: string

record IssuingBank =
  bank_name :: string
  accounts :: "(string, CardAccount) dict"
  transaction_history :: "(string, datetime list) dict"

definition declined :: "AuthorizationRequest \<Rightarrow> string \<Rightarrow> AuthorizationResponse" where
  "declined request reason =
     \<lparr> AuthorizationResponse.request_id = AuthorizationRequest.request_id request,
       approved = False, auth_code = None, decline_reason = Some reason,
       avs_result = ''Y'', cvv_result = ''M'' \<rparr>"

definition check_velocity :: "IssuingBank \<Rightarrow> string \<Rightarrow> int \<Rightarrow> datetime \<Rightarrow> bool" where
  "check_velocity bank number limit now =
     (let cutoff = now - us_per_hour;
          history = (case map_of (transaction_history bank) number of
                       None \<Rightarrow> [] | Some h \<Rightarrow> h);
          recent = filter (\<lambda>t. t > cutoff) history
      in int (length recent) < limit)"

definition record_transaction ::
  "(string, datetime list) dict \<Rightarrow> string \<Rightarrow> datetime \<Rightarrow> (string, datetime list) dict" where
  "record_transaction history number now =
     (let history' = (case map_of history number of
                        None \<Rightarrow> AList.update number [] history | Some _ \<Rightarrow> history)
      in AList.update number ((case map_of history' number of None \<Rightarrow> [] | Some h \<Rightarrow> h) @ [now])
           history')"

text \<open>
  \<open>IssuingBank.authorize\<close>. The clock reading \<open>now\<close> and the code drawn from
  \<open>secrets.token_hex\<close> are parameters. The result is the exception that escapes, or the
  response together with the bank after the call.
\<close>

definition IssuingBank_authorize ::
  "IssuingBank \<Rightarrow> AuthorizationRequest \<Rightarrow> datetime \<Rightarrow> string
     \<Rightarrow> py_error + (AuthorizationResponse \<times> IssuingBank)" where
  "IssuingBank_authorize bank request now code =
     (case map_of (accounts bank) (AuthorizationRequest.card_number request) of
        None \<Rightarrow> Inr (declined request ''invalid_card'', bank)
      | Some account \<Rightarrow>
          if status account = BLOCKED then Inr (declined request ''card_declined'', bank)
          else if status account = LOST_STOLEN then Inr (declined request ''pickup_card'', bank)
          else if status account = FRAUD_SUSPECT then Inr (declined request ''fraudulent'', bank)
          else
            (case datetime_ymd (CardAccount.exp_year account) (CardAccount.exp_month account) 1 of
               Inl e \<Rightarrow> Inl e
             | Inr exp_date \<Rightarrow>
                 (case datetime_add exp_date (31 * us_per_day) of
                    Inl e \<Rightarrow> Inl e
                  | Inr limit \<Rightarrow>
                      if now > limit then Inr (declined request ''expired_card'', bank)
                      else if AuthorizationRequest.cvv request \<noteq> CardAccount.cvv account
                      then Inr ((declined request ''incorrect_cvc'')\<lparr>cvv_result := ''N''\<rparr>, bank)
                      else if amount request > single_transaction_limit account
                      then Inr (declined request ''transaction_not_allowed'', bank)
                      else if amount request > available account
                      then Inr (declined request ''insufficient_funds'', bank)
                      else
                        if \<not> check_velocity bank (AuthorizationRequest.card_number request)
                                (velocity_limit account) now
                        then Inr (declined request ''withdrawal_count_limit_exceeded'', bank)
                        else Inr (\<lparr> AuthorizationResponse.request_id =
                                      AuthorizationRequest.request_id request,
                                    approved = True, auth_code = Some code,
                                    decline_reason = None,
                                    avs_result = ''Y'', cvv_result = ''M'' \<rparr>,
                                  bank\<lparr> accounts :=
                                          AList.update (AuthorizationRequest.card_number request)
                                            (account\<lparr> holds :=
                                               AList.update
                                                 (AuthorizationRequest.request_id request)
                                                 (amount request) (holds account) \<rparr>)
                                            (accounts bank),
                                        transaction_history :=
                                          record_transaction (transaction_history bank)
                                            (AuthorizationRequest.card_number request) now \<rparr>))))"

text \<open>
  \<open>IssuingBank.capture\<close>: the loop over \<open>self._accounts.values()\<close> stops at the first
  account holding \<open>auth_id\<close>, with \<open>False\<close> when the amount exceeds the hold and with
  \<open>True\<close> after deleting the hold and applying the charge.
\<close>

definition apply_charge :: "CardAccount \<Rightarrow> string \<Rightarrow> int \<Rightarrow> CardAccount" where
  "apply_charge account auth_id amt =
     (let account' = account\<lparr> holds := AList.delete auth_id (holds account) \<rparr>
      in if account_type account' = CREDIT
         then account'\<lparr> current_balance := current_balance account' + amt \<rparr>
         else account'\<lparr> account_balance := account_balance account' - amt \<rparr>)"

fun capture_accounts ::
  "(string, CardAccount) dict \<Rightarrow> string \<Rightarrow> int \<Rightarrow> bool \<times> (string, CardAccount) dict" where
  "capture_accounts [] auth_id amt = (False, [])"
| "capture_accounts ((k, account) # rest) auth_id amt =
     (case map_of (holds account) auth_id of
        Some held_amount \<Rightarrow>
          if amt > held_amount then (False, (k, account) # rest)
          else (True, (k, apply_charge account auth_id amt) # rest)
      | None \<Rightarrow>
          (let (r, rest') = capture_accounts rest auth_id amt
           in (r, (k, account) # rest')))"

definition IssuingBank_capture :: "IssuingBank \<Rightarrow> string \<Rightarrow> int \<Rightarrow> bool \<times> IssuingBank" where
  "IssuingBank_capture bank auth_id amt =
     (let (r, accounts') = capture_accounts (accounts bank) auth_id amt
      in (r, bank\<lparr> accounts := accounts' \<rparr>))"

fun void_accounts ::
  "(string, CardAccount) dict \<Rightarrow> string \<Rightarrow> bool \<times> (string, CardAccount) dict" where
  "void_accounts [] auth_id = (False, [])"
| "void_accounts ((k, account) # rest) auth_id =
     (case map_of (holds account) auth_id of
        Some _ \<Rightarrow> (True, (k, account\<lparr> holds := AList.delete auth_id (holds account) \<rparr>) # rest)
      | None \<Rightarrow>
          (let (r, rest') = void_accounts rest auth_id
           in (r, (k, account) # rest')))"

definition IssuingBank_void :: "IssuingBank \<Rightarrow> string \<Rightarrow> bool \<times> IssuingBank" where
  "IssuingBank_void bank auth_id =
     (let (r, accounts') = void_accounts (accounts bank) auth_id
      in (r, bank\<lparr> accounts := accounts' \<rparr>))"

text \<open>The accounts \<open>_setup_test_accounts\<close> creates, in its order.\<close>

definition test_account :: "string \<Rightarrow> string \<Rightarrow> CardAccount" where
  "test_account number name =
     \<lparr> CardAccount.card_number = number, cardholder_name = name,
       exp_month = 12, exp_year = 2025, cvv = ''123'',
       status = CardStatus.ACTIVE, account_type = CREDIT,
       credit_limit = 500000, current_balance = 0, account_balance = 100000,
       holds = [], velocity_limit = 5, single_transaction_limit = 100000 \<rparr>"

definition setup_test_accounts :: "(string, CardAccount) dict" where
  "setup_test_accounts =
     [(''4242424242424242'',
         (test_account ''4242424242424242'' ''Test Success'')\<lparr> credit_limit := 1000000 \<rparr>),
      (''4000000000009995'',
         (test_account ''4000000000009995'' ''Test Insufficient'')
           \<lparr> credit_limit := 10000, current_balance := 9900 \<rparr>),
      (''4000000000000002'',
         (test_account ''4000000000000002'' ''Test Declined'')\<lparr> status := BLOCKED \<rparr>),
      (''4100000000000019'',
         (test_account ''4100000000000019'' ''Test Fraud'')\<lparr> status := FRAUD_SUSPECT \<rparr>),
      (''5555555555554444'', test_account ''5555555555554444'' ''Test MC Success''),
      (''4000056655665556'',
         (test_account ''4000056655665556'' ''Test Debit'')
           \<lparr> account_type := DEBIT, account_balance := 50000 \<rparr>)]"

definition new_IssuingBank :: "string \<Rightarrow> IssuingBank" where
  "new_IssuingBank name =
     \<lparr> bank_name = name, accounts = setup_test_accounts, transaction_history = [] \<rparr>"


subsection \<open>Sequences of issuer operations\<close>

text \<open>
  A caller of the bank issues \<open>authorize\<close>, \<open>capture\<close> and \<open>void\<close> calls one after
  the other. A call that raises leaves the bank as it was (every exception of
  \<open>authorize\<close> escapes before the first mutation). \<open>run_ops\<close> lists the bank after
  each call.
\<close>

datatype bank_op =
    Authorize AuthorizationRequest datetime string
  | Capture string int
  | Void string

fun step :: "IssuingBank \<Rightarrow> bank_op \<Rightarrow> IssuingBank" where
  "step bank (Authorize request now code) =
     (case IssuingBank_authorize bank request now code of
        Inl e \<Rightarrow> bank
      | Inr (response, bank') \<Rightarrow> bank')"
| "step bank (Capture auth_id amt) = snd (IssuingBank_capture bank auth_id amt)"
| "step bank (Void auth_id) = snd (IssuingBank_void bank auth_id)"

fun run_ops :: "IssuingBank \<Rightarrow> bank_op list \<Rightarrow> IssuingBank list" where
  "run_ops bank [] = []"
| "run_ops bank (x # xs) = step bank x # run_ops (step bank x) xs"

text \<open>
  \<open>account_ok\<close>: the available funds and every single hold are non-negative.
  \<open>nonneg_op\<close>: an authorization asks for a non-negative amount.
\<close>

fun nonneg_op :: "bank_op \<Rightarrow> bool" where
  "nonneg_op (Authorize request now code) = (0 \<le> AuthorizationRequest.amount request)"
| "nonneg_op (Capture auth_id amt) = True"
| "nonneg_op (Void auth_id) = True"

definition account_ok :: "CardAccount \<Rightarrow> bool" where
  "account_ok a = (0 \<le> available a \<and> (\<forall>v\<in>set (map snd (holds a)). 0 \<le> v))"

definition card_ok :: "IssuingBank \<Rightarrow> string \<Rightarrow> bool" where
  "card_ok bank c = (case map_of (accounts bank) c of None \<Rightarrow> False | Some a \<Rightarrow> account_ok a)"

text \<open>The request the demo and the tests send, for a given request id, card, CVV and amount.\<close>

definition mk_request :: "string \<Rightarrow> string \<Rightarrow> string \<Rightarrow> int \<Rightarrow> AuthorizationRequest" where
  "mk_request rid number code amt =
     \<lparr> AuthorizationRequest.request_id = rid, card_number = number,
       exp_month = 12, exp_year = 2025, cvv = code, amount = amt, currency = ''USD'',
       merchant_id = ''merch_123'', merchant_name = ''Test Store'',
       merchant_category = ''5411'' \<rparr>"

definition negative_hold_ops :: "bank_op list" where
  "negative_hold_ops =
     [Authorize (mk_request ''r1'' ''4000000000009995'' ''123'' (- 50)) 63884332800000000 ''A1B2C3'',
      Authorize (mk_request ''r2'' ''4000000000009995'' ''123'' 150) 63884332800000000 ''D4E5F6'',
      Void ''r1'']"



section \<open>The card network (\<open>bank_simulator/card_network.py\<close>)\<close>

datatype NetworkType = VISA | MASTERCARD | AMEX | DISCOVER

fun NetworkType_value :: "NetworkType \<Rightarrow> string" where
  "NetworkType_value VISA = ''visa''"
| "NetworkType_value MASTERCARD = ''mastercard''"
| "NetworkType_value AMEX = ''amex''"
| "NetworkType_value DISCOVER = ''discover''"

text \<open>The \<open>metadata\<close> dictionary of a network transaction has these four keys.\<close>

record TransactionMetadata =
  merchant_id :: string
  decline_reason :: "string option"
  interchange_fee :: int
  assessment_fee :: int

record NetworkTransaction =
  transaction_id :: string
  network :: NetworkType
  acquirer_id :: string
  issuer_id :: string
  amount :: int
  currency :: string
  auth_code :: "string option"
  status :: string
  created_at :: datetime
  metadata :: TransactionMetadata

record CardNetwork =
  network_type :: NetworkType
  issuers :: "(string, IssuingBank) dict"
  transactions :: "(string, NetworkTransaction) dict"
  interchange_fee_bps :: int
  assessment_fee_bps :: int

definition BIN_RANGES :: "(string, NetworkType) dict" where
  "BIN_RANGES =
     [(''4'', VISA), (''5'', MASTERCARD), (''34'', AMEX), (''37'', AMEX), (''6'', DISCOVER)]"

text \<open>
  \<open>CardNetwork.detect_network\<close>: the slice \<open>card_number[:2]\<close> is \<open>take 2\<close>; the index
  \<open>card_number[0]\<close> raises \<open>IndexError\<close> on the empty string.
\<close>

definition detect_network :: "string \<Rightarrow> py_error + NetworkType option" where
  "detect_network number =
     (case map_of BIN_RANGES (take 2 number) of
        Some n \<Rightarrow> Inr (Some n)
      | None \<Rightarrow>
          (case number of
             [] \<Rightarrow> Inl IndexError
           | c # _ \<Rightarrow>
               (case map_of BIN_RANGES [c] of
                  Some n \<Rightarrow> Inr (Some n)
                | None \<Rightarrow> Inr None)))"


text \<open>
  \<open>int(amount * bps / 10000)\<close>: the quotient truncated towards zero (Python divides in
  floating point, which is exact for the amounts of cents a payment can carry).
\<close>

definition fee_of :: "int \<Rightarrow> int \<Rightarrow> int" where
  "fee_of amt bps =
     (if 0 \<le> amt * bps then (amt * bps) div 10000 else - ((- (amt * bps)) div 10000))"

record NetworkFees =
  interchange :: int
  assessment :: int
  total :: int

record RouteResponse =
  success :: bool
  transaction_id :: string
  auth_code :: "string option"
  decline_reason :: "string option"
  avs_result :: string
  cvv_result :: string
  fees :: NetworkFees

text \<open>The dictionary \<open>route_authorization\<close> returns: an error message, or the issuer's
  answer with the fees.\<close>

datatype NetworkResult = NetworkError string | NetworkResponse RouteResponse

text \<open>
  \<open>CardNetwork.route_authorization\<close>. The card and merchant arguments travel in an
  \<open>AuthorizationRequest\<close> whose \<open>request_id\<close> the network replaces by the transaction id
  it has drawn (\<open>tid\<close>, from \<open>secrets.token_hex\<close>). An exception of the detection or of
  the issuer escapes before anything is logged.
\<close>

definition route_authorization ::
  "CardNetwork \<Rightarrow> string \<Rightarrow> AuthorizationRequest \<Rightarrow> string \<Rightarrow> datetime \<Rightarrow> string
     \<Rightarrow> py_error + (NetworkResult \<times> CardNetwork)" where
  "route_authorization net acquirer request tid now code =
     (case detect_network (AuthorizationRequest.card_number request) of
        Inl e \<Rightarrow> Inl e
      | Inr detected \<Rightarrow>
          if detected \<noteq> Some (network_type net)
          then Inr (NetworkError
                      (''Card not valid for '' @ NetworkType_value (network_type net)
                         @ '' network''), net)
          else
            (case map_of (issuers net) ''default'' of
               None \<Rightarrow> Inr (NetworkError ''No issuing bank found for card'', net)
             | Some issuer \<Rightarrow>
                 (case IssuingBank_authorize issuer
                         (request\<lparr> AuthorizationRequest.request_id := tid \<rparr>) now code of
                    Inl e \<Rightarrow> Inl e
                  | Inr (response, issuer') \<Rightarrow>
                      (let interchange_amt =
                             fee_of (AuthorizationRequest.amount request) (interchange_fee_bps net);
                           assessment_amt =
                             fee_of (AuthorizationRequest.amount request) (assessment_fee_bps net)
                       in Inr (NetworkResponse
                                 \<lparr> success = approved response,
                                   RouteResponse.transaction_id = tid,
                                   RouteResponse.auth_code =
                                     AuthorizationResponse.auth_code response,
                                   RouteResponse.decline_reason =
                                     AuthorizationResponse.decline_reason response,
                                   RouteResponse.avs_result =
                                     AuthorizationResponse.avs_result response,
                                   RouteResponse.cvv_result =
                                     AuthorizationResponse.cvv_result response,
                                   fees = \<lparr> interchange = interchange_amt,
                                            assessment = assessment_amt,
                                            total = interchange_amt + assessment_amt \<rparr> \<rparr>,
                               net\<lparr> issuers := AList.update ''default'' issuer' (issuers net),
                                    transactions :=
                                      AList.update tid
                                        \<lparr> NetworkTransaction.transaction_id = tid,
                                          network = network_type net,
                                          acquirer_id = acquirer,
                                          issuer_id = ''default'',
                                          NetworkTransaction.amount =
                                            AuthorizationRequest.amount request,
                                          NetworkTransaction.currency =
                                            AuthorizationRequest.currency request,
                                          NetworkTransaction.auth_code =
                                            AuthorizationResponse.auth_code response,
                                          status = (if approved response then ''approved''
                                                    else ''declined''),
                                          created_at = now,
                                          metadata =
                                            \<lparr> TransactionMetadata.merchant_id =
                                                AuthorizationRequest.merchant_id request,
                                              TransactionMetadata.decline_reason =
                                                AuthorizationResponse.decline_reason response,
                                              interchange_fee = interchange_amt,
                                              assessment_fee = assessment_amt \<rparr> \<rparr>
                                        (transactions net) \<rparr>)))))"

text \<open>
  \<open>CardNetwork.capture\<close> and \<open>CardNetwork.void\<close>: the returned dictionary is the error
  message (\<open>Inl\<close>) or the success value (\<open>Inr\<close>: the amount captured, nothing for a void).
  The transaction object is mutated in place, which is an update of its dictionary entry.
\<close>

definition CardNetwork_capture ::
  "CardNetwork \<Rightarrow> string \<Rightarrow> int \<Rightarrow> (string + int) \<times> CardNetwork" where
  "CardNetwork_capture net tid amt =
     (case map_of (transactions net) tid of
        None \<Rightarrow> (Inl ''Transaction not found'', net)
      | Some txn \<Rightarrow>
          if NetworkTransaction.status txn \<noteq> ''approved''
          then (Inl ''Transaction not authorized'', net)
          else
            (case map_of (issuers net) (issuer_id txn) of
               None \<Rightarrow> (Inl ''Capture failed'', net)
             | Some issuer \<Rightarrow>
                 (let (captured, issuer') = IssuingBank_capture issuer tid amt
                  in if captured
                     then (Inr amt,
                           net\<lparr> issuers := AList.update (issuer_id txn) issuer' (issuers net),
                                transactions :=
                                  AList.update tid
                                    (txn\<lparr> NetworkTransaction.status := ''captured'' \<rparr>)
                                    (transactions net) \<rparr>)
                     else (Inl ''Capture failed'',
                           net\<lparr> issuers :=
                                  AList.update (issuer_id txn) issuer' (issuers net) \<rparr>))))"

definition CardNetwork_void :: "CardNetwork \<Rightarrow> string \<Rightarrow> (string + unit) \<times> CardNetwork" where
  "CardNetwork_void net tid =
     (case map_of (transactions net) tid of
        None \<Rightarrow> (Inl ''Transaction not found'', net)
      | Some txn \<Rightarrow>
          (case map_of (issuers net) (issuer_id txn) of
             None \<Rightarrow> (Inl ''Void failed'', net)
           | Some issuer \<Rightarrow>
               (let (voided, issuer') = IssuingBank_void issuer tid
                in if voided
                   then (Inr (),
                         net\<lparr> issuers := AList.update (issuer_id txn) issuer' (issuers net),
                              transactions :=
                                AList.update tid
                                  (txn\<lparr> NetworkTransaction.status := ''voided'' \<rparr>)
                                  (transactions net) \<rparr>)
                   else (Inl ''Void failed'',
                         net\<lparr> issuers :=
                                AList.update (issuer_id txn) issuer' (issuers net) \<rparr>))))"

definition new_CardNetwork :: "NetworkType \<Rightarrow> CardNetwork" where
  "new_CardNetwork t =
     \<lparr> network_type = t,
       issuers = [(''default'', new_IssuingBank ''Demo Issuing Bank'')],
       transactions = [],
       interchange_fee_bps = 200,
       assessment_fee_bps = 13 \<rparr>"

subsection \<open>Sequences of network operations\<close>

text \<open>
  The calls an acquirer makes on one network, one after the other; a call that raises
  leaves the network as it was.
\<close>

datatype network_op =
    Route string AuthorizationRequest string datetime string
  | NetCapture string int
  | NetVoid string

fun net_step :: "CardNetwork \<Rightarrow> network_op \<Rightarrow> CardNetwork" where
  "net_step net (Route acquirer request tid now code) =
     (case route_authorization net acquirer request tid now code of
        Inl e \<Rightarrow> net
      | Inr (r, net') \<Rightarrow> net')"
| "net_step net (NetCapture tid amt) = snd (CardNetwork_capture net tid amt)"
| "net_step net (NetVoid tid) = snd (CardNetwork_void net tid)"

fun net_run :: "CardNetwork \<Rightarrow> network_op list \<Rightarrow> CardNetwork" where
  "net_run net [] = net"
| "net_run net (x # xs) = net_run (net_step net x) xs"

text \<open>An operation other than the authorization that draws the transaction id \<open>tid\<close>
  (an id is drawn once: 96 random bits).\<close>

fun not_route_of :: "string \<Rightarrow> network_op \<Rightarrow> bool" where
  "not_route_of tid (Route acquirer request tid' now code) = (tid' \<noteq> tid)"
| "not_route_of tid (NetCapture tid' amt) = True"
| "not_route_of tid (NetVoid tid') = True"

text \<open>\<open>not_approved\<close>: the transaction is logged with a status other than
  \<open>approved\<close>.\<close>

definition not_approved :: "CardNetwork \<Rightarrow> string \<Rightarrow> bool" where
  "not_approved net tid =
     (case map_of (CardNetwork.transactions net) tid of
        None \<Rightarrow> False
      | Some txn \<Rightarrow> NetworkTransaction.status txn \<noteq> ''approved'')"

text \<open>A Visa network after one approved authorization, logged as \<open>nt_1\<close>.\<close>

definition visa_authorized :: CardNetwork where
  "visa_authorized =
     net_step (new_CardNetwork VISA)
       (Route ''acq_demo123'' (mk_request ''ignored'' ''4242424242424242'' ''123'' 10000)
          ''nt_1'' 63884332800000000 ''A1B2C3'')"


section \<open>The acquiring bank (\<open>bank_simulator/acquiring_bank.py\<close>)\<close>

datatype SettlementStatus = PENDING | BATCHED | SETTLED | FAILED

datatype MerchantStatus = ACTIVE | SUSPENDED | CLOSED | UNDER_REVIEW

fun MerchantStatus_value :: "MerchantStatus \<Rightarrow> string" where
  "MerchantStatus_value MerchantStatus.ACTIVE = ''active''"
| "MerchantStatus_value SUSPENDED = ''suspended''"
| "MerchantStatus_value CLOSED = ''closed''"
| "MerchantStatus_value UNDER_REVIEW = ''under_review''"

text \<open>The field \<open>chargeback_rate\<close> (a float the code never reads) is left out. A key or
  field \<open>id\<close> of the source is \<open>ident\<close> here, \<open>id\<close> being the identity function of HOL.\<close>

record MerchantAccount =
  merchant_id :: string
  business_name :: string
  status :: MerchantStatus
  discount_rate_bps :: int
  fixed_fee_cents :: int
  settlement_delay_days :: int
  pending_settlement :: int
  monthly_volume_limit :: int
  current_month_volume :: int
  mcc :: string

record AcquirerTransaction =
  transaction_id :: string
  merchant_id :: string
  network_transaction_id :: string
  amount :: int
  currency :: string
  fees :: int
  net_amount :: int
  settlement_status :: SettlementStatus
  settlement_date :: "datetime option"
  created_at :: datetime

record SettlementBatch =
  ident :: string
  transactions :: "string list"
  total_amount :: int
  total_fees :: int
  net_amount :: int
  created_at :: datetime

record AcquiringBank =
  bank_name :: string
  merchants :: "(string, MerchantAccount) dict"
  networks :: "(NetworkType, CardNetwork) dict"
  transactions :: "(string, AcquirerTransaction) dict"
  batches :: "SettlementBatch list"

record AcquirerFees =
  discount :: int
  fixed :: int
  network :: int
  total :: int

record AuthorizedPayment =
  transaction_id :: string
  network_transaction_id :: string
  auth_code :: "string option"
  amount :: int
  fees :: AcquirerFees
  net_amount :: int

text \<open>The dictionary \<open>process_authorization\<close> returns: an error of the acquirer, the
  failing result of the network handed on as it is, or the authorized payment.\<close>

datatype AcquirerResult =
    AcquirerError string
  | NetworkFailure NetworkResult
  | Authorized AuthorizedPayment

definition detect_and_get_network ::
  "AcquiringBank \<Rightarrow> string \<Rightarrow> py_error + (NetworkType \<times> CardNetwork) option" where
  "detect_and_get_network bank number =
     (case number of
        [] \<Rightarrow> Inl IndexError
      | first_digit # _ \<Rightarrow>
          if first_digit = CHR ''4''
          then Inr (map_option (Pair VISA) (map_of (networks bank) VISA))
          else if first_digit = CHR ''5''
          then Inr (map_option (Pair MASTERCARD) (map_of (networks bank) MASTERCARD))
          else Inr None)"

text \<open>
  \<open>AcquiringBank.process_authorization\<close>. \<open>txn_id\<close> and \<open>nt_id\<close> are the ids drawn for
  the acquirer's and the network's transaction, \<open>code\<close> the issuer's authorization code.
\<close>

definition process_authorization ::
  "AcquiringBank \<Rightarrow> string \<Rightarrow> string \<Rightarrow> int \<Rightarrow> int \<Rightarrow> string \<Rightarrow> int \<Rightarrow> string
     \<Rightarrow> string \<Rightarrow> string \<Rightarrow> datetime \<Rightarrow> string
     \<Rightarrow> py_error + (AcquirerResult \<times> AcquiringBank)" where
  "process_authorization bank mid number month year code3 amt cur txn_id nt_id now code =
     (case map_of (merchants bank) mid of
        None \<Rightarrow> Inr (AcquirerError ''Invalid merchant'', bank)
      | Some merchant \<Rightarrow>
          if MerchantAccount.status merchant \<noteq> MerchantStatus.ACTIVE
          then Inr (AcquirerError
                      (''Merchant '' @ MerchantStatus_value (MerchantAccount.status merchant)),
                    bank)
          else if current_month_volume merchant + amt > monthly_volume_limit merchant
          then Inr (AcquirerError ''Monthly volume limit exceeded'', bank)
          else
            (case detect_and_get_network bank number of
               Inl e \<Rightarrow> Inl e
             | Inr None \<Rightarrow> Inr (AcquirerError ''Unsupported card network'', bank)
             | Inr (Some (nkey, net)) \<Rightarrow>
                 (case route_authorization net (AcquiringBank.bank_name bank)
                         \<lparr> AuthorizationRequest.request_id = nt_id,
                           card_number = number, exp_month = month, exp_year = year,
                           cvv = code3, amount = amt, currency = cur,
                           merchant_id = mid, merchant_name = business_name merchant,
                           merchant_category = mcc merchant \<rparr>
                         nt_id now code of
                    Inl e \<Rightarrow> Inl e
                  | Inr (NetworkError msg, net') \<Rightarrow>
                      Inr (NetworkFailure (NetworkError msg),
                           bank\<lparr> networks := AList.update nkey net' (networks bank) \<rparr>)
                  | Inr (NetworkResponse r, net') \<Rightarrow>
                      if \<not> success r
                      then Inr (NetworkFailure (NetworkResponse r),
                                bank\<lparr> networks := AList.update nkey net' (networks bank) \<rparr>)
                      else
                        (let discount_fee = fee_of amt (discount_rate_bps merchant);
                             total_fee = discount_fee + fixed_fee_cents merchant;
                             net_amt = amt - total_fee
                         in Inr (Authorized
                                   \<lparr> AuthorizedPayment.transaction_id = txn_id,
                                     network_transaction_id = RouteResponse.transaction_id r,
                                     auth_code = RouteResponse.auth_code r,
                                     amount = amt,
                                     fees = \<lparr> discount = discount_fee,
                                              fixed = fixed_fee_cents merchant,
                                              network = NetworkFees.total (RouteResponse.fees r),
                                              total = total_fee
                                                + NetworkFees.total (RouteResponse.fees r) \<rparr>,
                                     net_amount =
                                       net_amt - NetworkFees.total (RouteResponse.fees r) \<rparr>,
                                 bank\<lparr> networks := AList.update nkey net' (networks bank),
                                       transactions :=
                                         AList.update txn_id
                                           \<lparr> AcquirerTransaction.transaction_id = txn_id,
                                             merchant_id = mid,
                                             network_transaction_id =
                                               RouteResponse.transaction_id r,
                                             amount = amt, currency = cur,
                                             fees = total_fee, net_amount = net_amt,
                                             settlement_status = PENDING,
                                             settlement_date = None,
                                             created_at = now \<rparr>
                                           (AcquiringBank.transactions bank),
                                       merchants :=
                                         AList.update mid
                                           (merchant\<lparr> current_month_volume :=
                                              current_month_volume merchant + amt \<rparr>)
                                           (merchants bank) \<rparr>)))))"

text \<open>
  \<open>AcquiringBank.capture\<close>. The network is \<open>list(self._networks.values())[0]\<close>, which
  raises \<open>IndexError\<close> on an empty dictionary; \<open>amount or transaction.amount\<close> takes the
  transaction's amount when the argument is \<open>None\<close> or zero.
\<close>

definition AcquiringBank_capture ::
  "AcquiringBank \<Rightarrow> string \<Rightarrow> int option \<Rightarrow> py_error + ((string + int) \<times> AcquiringBank)" where
  "AcquiringBank_capture bank txn_id amt =
     (case map_of (AcquiringBank.transactions bank) txn_id of
        None \<Rightarrow> Inr (Inl ''Transaction not found'', bank)
      | Some txn \<Rightarrow>
          (case networks bank of
             [] \<Rightarrow> Inl IndexError
           | (nkey, net) # _ \<Rightarrow>
               (let capture_amount =
                      (case amt of
                         None \<Rightarrow> AcquirerTransaction.amount txn
                       | Some a \<Rightarrow> if a = 0 then AcquirerTransaction.amount txn else a);
                    (result, net') =
                      CardNetwork_capture net
                        (AcquirerTransaction.network_transaction_id txn) capture_amount;
                    bank' = bank\<lparr> networks := AList.update nkey net' (networks bank) \<rparr>
                in case result of
                     Inl msg \<Rightarrow> Inr (Inl msg, bank')
                   | Inr captured \<Rightarrow>
                       (case map_of (merchants bank') (AcquirerTransaction.merchant_id txn) of
                          None \<Rightarrow> Inr (Inr captured, bank')
                        | Some merchant \<Rightarrow>
                            Inr (Inr captured,
                                 bank'\<lparr> merchants :=
                                          AList.update (AcquirerTransaction.merchant_id txn)
                                            (merchant\<lparr> pending_settlement :=
                                               pending_settlement merchant
                                                 + AcquirerTransaction.net_amount txn \<rparr>)
                                            (merchants bank') \<rparr>)))))"

text \<open>
  \<open>AcquiringBank.create_settlement_batch\<close>. The loop over
  \<open>self._transactions.values()\<close> carries the list of batched ids and the two running
  totals; \<open>batch_id\<close> is the id drawn for the batch.
\<close>

fun batch_pending ::
  "(string, AcquirerTransaction) dict \<Rightarrow> datetime \<Rightarrow> string list \<Rightarrow> int \<Rightarrow> int
     \<Rightarrow> (string, AcquirerTransaction) dict \<times> string list \<times> int \<times> int" where
  "batch_pending [] now batch_transactions total_amt total_fee =
     ([], batch_transactions, total_amt, total_fee)"
| "batch_pending ((k, txn) # rest) now batch_transactions total_amt total_fee =
     (if settlement_status txn = PENDING
      then (let txn' = txn\<lparr> settlement_status := BATCHED,
                              settlement_date := Some (now + 2 * us_per_day) \<rparr>;
                (rest', ids, ta, tf) =
                  batch_pending rest now
                    (batch_transactions @ [AcquirerTransaction.transaction_id txn])
                    (total_amt + AcquirerTransaction.amount txn)
                    (total_fee + AcquirerTransaction.fees txn)
            in ((k, txn') # rest', ids, ta, tf))
      else (let (rest', ids, ta, tf) =
                  batch_pending rest now batch_transactions total_amt total_fee
            in ((k, txn) # rest', ids, ta, tf)))"

definition create_settlement_batch ::
  "AcquiringBank \<Rightarrow> string \<Rightarrow> datetime \<Rightarrow> SettlementBatch \<times> AcquiringBank" where
  "create_settlement_batch bank batch_id now =
     (let (txns', batch_transactions, total_amt, total_fee) =
            batch_pending (AcquiringBank.transactions bank) now [] 0 0;
          batch = \<lparr> ident = batch_id,
                    transactions = batch_transactions,
                    total_amount = total_amt,
                    total_fees = total_fee,
                    net_amount = total_amt - total_fee,
                    created_at = now \<rparr>
      in (batch, bank\<lparr> AcquiringBank.transactions := txns',
                       batches := batches bank @ [batch] \<rparr>))"

definition new_merchant :: "string \<Rightarrow> string \<Rightarrow> string \<Rightarrow> MerchantAccount" where
  "new_merchant mid name code =
     \<lparr> MerchantAccount.merchant_id = mid, business_name = name,
       status = MerchantStatus.ACTIVE, discount_rate_bps = 290, fixed_fee_cents = 30,
       settlement_delay_days = 2, pending_settlement = 0,
       monthly_volume_limit = 10000000, current_month_volume = 0, mcc = code \<rparr>"

definition new_AcquiringBank :: "string \<Rightarrow> AcquiringBank" where
  "new_AcquiringBank name =
     \<lparr> AcquiringBank.bank_name = name,
       merchants = [(''merch_demo123'', new_merchant ''merch_demo123'' ''Demo Store'' ''5411'')],
       networks = [(VISA, new_CardNetwork VISA), (MASTERCARD, new_CardNetwork MASTERCARD)],
       transactions = [],
       batches = [] \<rparr>"

text \<open>The two pending transactions of the settlement scenario.\<close>

definition pending_txn :: "string \<Rightarrow> int \<Rightarrow> int \<Rightarrow> AcquirerTransaction" where
  "pending_txn tid amt fee =
     \<lparr> AcquirerTransaction.transaction_id = tid, merchant_id = ''merch_demo123'',
       network_transaction_id = ''nt_'' @ tid, amount = amt, currency = ''USD'',
       fees = fee, net_amount = amt - fee, settlement_status = PENDING,
       settlement_date = None, created_at = 0 \<rparr>"

definition scenario_bank :: AcquiringBank where
  "scenario_bank =
     (new_AcquiringBank ''Demo Acquiring Bank'')
       \<lparr> AcquiringBank.transactions :=
           [(''txn_a'', pending_txn ''txn_a'' 10000 320),
            (''txn_b'', pending_txn ''txn_b'' 5000 175)] \<rparr>"

section \<open>Idempotent execution (\<open>shared/idempotency.py\<close>)\<close>

text \<open>
  The exceptions the gateway raises: the three of the idempotency service, those of
  \<open>gateway/authorization.py\<close>, and any other exception by its class name and message
  (which is all the service stores of a failed operation).
\<close>

datatype exn =
    IdempotencyConflict string
  | IdempotencyInProgress string
  | IdempotencyFailedPreviously string
  | InvalidAmountError string
  | CaptureError string
  | PaymentError string
  | AuthorizationError string string
  | OtherException string string

fun exn_type :: "exn \<Rightarrow> string" where
  "exn_type (IdempotencyConflict m) = ''IdempotencyConflict''"
| "exn_type (IdempotencyInProgress m) = ''IdempotencyInProgress''"
| "exn_type (IdempotencyFailedPreviously m) = ''IdempotencyFailedPreviously''"
| "exn_type (InvalidAmountError m) = ''InvalidAmountError''"
| "exn_type (CaptureError m) = ''CaptureError''"
| "exn_type (PaymentError m) = ''PaymentError''"
| "exn_type (AuthorizationError m c) = ''AuthorizationError''"
| "exn_type (OtherException t m) = t"

fun exn_message :: "exn \<Rightarrow> string" where
  "exn_message (IdempotencyConflict m) = m"
| "exn_message (IdempotencyInProgress m) = m"
| "exn_message (IdempotencyFailedPreviously m) = m"
| "exn_message (InvalidAmountError m) = m"
| "exn_message (CaptureError m) = m"
| "exn_message (PaymentError m) = m"
| "exn_message (AuthorizationError m c) = m"
| "exn_message (OtherException t m) = m"

datatype IdempotencyStatus = PENDING | COMPLETED | FAILED

text \<open>
  The stored \<open>error\<close> dictionary has the keys \<open>type\<close> and \<open>message\<close>: a pair. The
  cached \<open>result\<close> is whatever \<open>_serialize_result\<close> makes of the operation's value.
\<close>

record 'r IdempotencyRecord =
  key :: string
  status :: IdempotencyStatus
  request_hash :: string
  result :: "'r option"
  error :: "(string \<times> string) option"
  created_at :: datetime
  expires_at :: datetime

definition is_expired :: "'r IdempotencyRecord \<Rightarrow> datetime \<Rightarrow> bool" where
  "is_expired record now = (now > IdempotencyRecord.expires_at record)"

text \<open>
  The service: the records of its store and, for each key that has one, whether its lock
  is held.
\<close>

record 'r IdempotencyService =
  store :: "(string, 'r IdempotencyRecord) dict"
  locks :: "(string, bool) dict"

text \<open>\<open>IdempotencyStore.get\<close>: an expired record is deleted and \<open>None\<close> returned.\<close>

definition store_get ::
  "(string, 'r IdempotencyRecord) dict \<Rightarrow> string \<Rightarrow> datetime
     \<Rightarrow> 'r IdempotencyRecord option \<times> (string, 'r IdempotencyRecord) dict" where
  "store_get st k now =
     (case map_of st k of
        None \<Rightarrow> (None, st)
      | Some record \<Rightarrow>
          if is_expired record now then (None, AList.delete k st) else (Some record, st))"

definition conflict_message :: "string \<Rightarrow> string" where
  "conflict_message k =
     ''Idempotency key '' @ [CHR 0x27] @ k @ [CHR 0x27]
       @ '' was used with different parameters. Use a new key for different operations.''"

definition failed_message :: "string \<times> string \<Rightarrow> string" where
  "failed_message e = ''Previous request failed with: '' @ fst e @ '': '' @ snd e"

text \<open>
  \<open>_handle_existing_record\<close>. Subscripting a missing \<open>error\<close> (\<open>None\<close>) raises
  \<open>TypeError\<close>; \<open>execute\<close> never stores a failed record without its error.
\<close>

definition handle_existing_record :: "'r IdempotencyRecord \<Rightarrow> string \<Rightarrow> exn + 'r option" where
  "handle_existing_record record rhash =
     (if request_hash record \<noteq> rhash
      then Inl (IdempotencyConflict (conflict_message (key record)))
      else if IdempotencyRecord.status record = IdempotencyStatus.PENDING
      then Inl (IdempotencyInProgress ''This request is currently being processed'')
      else if IdempotencyRecord.status record = IdempotencyStatus.FAILED
      then (case error record of
              None \<Rightarrow>
                Inl (OtherException ''TypeError'' [])
            | Some e \<Rightarrow> Inl (IdempotencyFailedPreviously (failed_message e)))
      else Inr (result record))"

definition get_lock :: "(string, bool) dict \<Rightarrow> string \<Rightarrow> (string, bool) dict" where
  "get_lock ls k = (case map_of ls k of None \<Rightarrow> AList.update k False ls | Some _ \<Rightarrow> ls)"

text \<open>
  \<open>IdempotencyService.execute\<close>, for calls made one after the other by one thread. The
  hash of the parameters (\<open>_hash_params\<close>: SHA-256 of their JSON text, cut to 16 digits)
  and \<open>_serialize_result\<close> are the parameters \<open>hash_params\<close> and
  \<open>serialize_result\<close>. The operation is a function on the state \<open>s\<close> of whatever it
  works on, returning its value or the exception it raises. A lock that is held when the
  call arrives is never released in the meantime, so the timed \<open>acquire\<close> fails and
  \<open>IdempotencyInProgress\<close> is raised; otherwise the lock is taken, the store checked
  again, the pending record written, the operation run, its outcome recorded and the
  lock released.
\<close>

definition execute ::
  "('p \<Rightarrow> string) \<Rightarrow> ('a \<Rightarrow> 'r) \<Rightarrow> 'r IdempotencyService \<Rightarrow> string
     \<Rightarrow> ('s \<Rightarrow> (exn + 'a) \<times> 's) \<Rightarrow> 'p \<Rightarrow> datetime \<Rightarrow> 's
     \<Rightarrow> (exn + 'r option) \<times> 'r IdempotencyService \<times> 's" where
  "execute hash_params serialize_result svc k operation request_params now s =
     (let rhash = hash_params request_params;
          (existing, store1) = store_get (store svc) k now
      in case existing of
           Some record \<Rightarrow> (handle_existing_record record rhash, svc\<lparr> store := store1 \<rparr>, s)
         | None \<Rightarrow>
             (let locks1 = get_lock (locks svc) k
              in if map_of locks1 k = Some True
                 then (Inl (IdempotencyInProgress
                              ''Another request with this idempotency key is being processed''),
                       svc\<lparr> store := store1, locks := locks1 \<rparr>, s)
                 else
                   (let (existing2, store2) = store_get store1 k now
                    in case existing2 of
                         Some record \<Rightarrow>
                           (handle_existing_record record rhash,
                            svc\<lparr> store := store2, locks := AList.update k False locks1 \<rparr>, s)
                       | None \<Rightarrow>
                           (let record =
                                  \<lparr> key = k, status = IdempotencyStatus.PENDING,
                                    request_hash = rhash, result = None, error = None,
                                    created_at = now, expires_at = now + 24 * us_per_hour \<rparr>;
                                store3 = AList.update k record store2
                            in case operation s of
                                 (Inr v, s') \<Rightarrow>
                                   (let record' =
                                          record\<lparr> status := COMPLETED,
                                                  result := Some (serialize_result v) \<rparr>
                                    in (Inr (result record'),
                                        svc\<lparr> store := AList.update k record' store3,
                                             locks := AList.update k False locks1 \<rparr>, s'))
                               | (Inl e, s') \<Rightarrow>
                                   (let record' =
                                          record\<lparr> status := IdempotencyStatus.FAILED,
                                                  error := Some (exn_type e, exn_message e) \<rparr>
                                    in (Inl e,
                                        svc\<lparr> store := AList.update k record' store3,
                                             locks := AList.update k False locks1 \<rparr>,
                                        s'))))))"



definition new_IdempotencyService :: "'r IdempotencyService" where
  "new_IdempotencyService = \<lparr> store = [], locks = [] \<rparr>"






section \<open>The gateway's authorization service (\<open>gateway/models.py\<close>,
  \<open>gateway/authorization.py\<close>, \<open>shared/constants.py\<close>)\<close>

datatype Currency = USD | EUR | GBP

fun Currency_value :: "Currency \<Rightarrow> string" where
  "Currency_value USD = ''usd''"
| "Currency_value EUR = ''eur''"
| "Currency_value GBP = ''gbp''"

datatype CardBrand = VISA | MASTERCARD | AMEX | DISCOVER | UNKNOWN

datatype AuthorizationStatus = ACTIVE | CAPTURED | VOIDED | EXPIRED


datatype PaymentStatus =
    PENDING | REQUIRES_ACTION | PROCESSING | AUTHORIZED | SUCCEEDED | FAILED
  | CANCELED | REFUNDED | PARTIALLY_REFUNDED

datatype DeclineCode =
    CARD_DECLINED | INSUFFICIENT_FUNDS | EXPIRED_CARD | INVALID_NUMBER | INVALID_CVV
  | STOLEN_CARD | LOST_CARD | ISSUER_UNAVAILABLE | TRY_AGAIN | AUTHENTICATION_REQUIRED
  | PROCESSING_ERROR | GATEWAY_ERROR

fun DeclineCode_value :: "DeclineCode \<Rightarrow> string" where
  "DeclineCode_value CARD_DECLINED = ''card_declined''"
| "DeclineCode_value INSUFFICIENT_FUNDS = ''insufficient_funds''"
| "DeclineCode_value EXPIRED_CARD = ''expired_card''"
| "DeclineCode_value INVALID_NUMBER = ''invalid_number''"
| "DeclineCode_value INVALID_CVV = ''invalid_cvv''"
| "DeclineCode_value STOLEN_CARD = ''stolen_card''"
| "DeclineCode_value LOST_CARD = ''lost_card''"
| "DeclineCode_value ISSUER_UNAVAILABLE = ''issuer_unavailable''"
| "DeclineCode_value TRY_AGAIN = ''try_again''"
| "DeclineCode_value AUTHENTICATION_REQUIRED = ''authentication_required''"
| "DeclineCode_value PROCESSING_ERROR = ''processing_error''"
| "DeclineCode_value GATEWAY_ERROR = ''gateway_error''"

definition MIN_AMOUNT_CENTS :: int where
  "MIN_AMOUNT_CENTS = 50"

definition MAX_AMOUNT_CENTS :: int where
  "MAX_AMOUNT_CENTS = 99999999"

definition AUTH_HOLD_DAYS :: int where
  "AUTH_HOLD_DAYS = 7"

record Authorization =
  ident :: string
  amount :: int
  currency :: Currency
  status :: AuthorizationStatus
  card_last_four :: string
  card_brand :: CardBrand
  created_at :: datetime
  expires_at :: datetime
  captured_at :: "datetime option"
  voided_at :: "datetime option"
  captured_amount :: int
  auth_code :: "string option"
  merchant_id :: string
  metadata :: "(string, string) dict"



text \<open>The fields \<open>risk_score\<close> and \<open>risk_level\<close> of a charge, which this service never
  sets, are left out.\<close>

record Charge =
  ident :: string
  amount :: int
  currency :: Currency
  status :: PaymentStatus
  card_last_four :: string
  card_brand :: CardBrand
  created_at :: datetime
  authorization_code :: "string option"
  decline_code :: "DeclineCode option"
  decline_message :: "string option"
  refunded :: bool
  refunded_amount :: int
  authorization_id :: "string option"
  merchant_id :: string
  description :: "string option"
  metadata :: "(string, string) dict"

record Token =
  ident :: string
  card_last_four :: string
  card_brand :: CardBrand
  card_exp_month :: int
  card_exp_year :: int
  created_at :: datetime
  expires_at :: "datetime option"
  used :: bool

record BankAuthResponse =
  approved :: bool
  auth_code :: "string option"
  decline_code :: "DeclineCode option"
  decline_message :: "string option"
  issuer_response_code :: "string option"

text \<open>
  The collaborators injected into the service, as functions on their own state \<open>'w\<close>:
  \<open>TokenizationService.use_token\<close> (the token and the card number, or the exception it
  raises), the bank's \<open>authorize\<close> and \<open>capture\<close>, and \<open>TokenGenerator.generate\<close>.
\<close>

record 'w Collaborators =
  use_token :: "string \<Rightarrow> 'w \<Rightarrow> (exn + Token \<times> string) \<times> 'w"
  bank_authorize :: "string \<Rightarrow> int \<Rightarrow> Currency \<Rightarrow> 'w \<Rightarrow> BankAuthResponse \<times> 'w"
  bank_capture :: "string option \<Rightarrow> int \<Rightarrow> 'w \<Rightarrow> bool \<times> 'w"
  generate :: "string \<Rightarrow> nat \<Rightarrow> 'w \<Rightarrow> string \<times> 'w"

text \<open>
  What \<open>_serialize_result\<close> caches for the values this service returns: the attribute
  dictionary of the authorization or of the charge (its value at the time of the call).
\<close>

datatype cached = CachedAuthorization Authorization | CachedCharge Charge

record AuthorizationService =
  authorizations :: "(string, Authorization) dict"
  charges :: "(string, Charge) dict"
  idempotency :: "cached IdempotencyService"

text \<open>An amount as a caller may pass it: an integer, or a value of another type.\<close>

datatype amount_arg = IntAmount int | NonInt

text \<open>The values of the \<open>request_params\<close> dictionaries.\<close>

datatype py_value = PyStr string | PyInt int | PyBool bool | PyNone | PyObject

fun amount_value :: "amount_arg \<Rightarrow> py_value" where
  "amount_value (IntAmount a) = PyInt a"
| "amount_value NonInt = PyObject"

text \<open>The digits of an integer, for the messages that print one.\<close>

fun digits :: "nat \<Rightarrow> string" where
  "digits n =
     (if n < 10 then [''0123456789'' ! n]
      else digits (n div 10) @ [''0123456789'' ! (n mod 10)])"

declare digits.simps [simp del]

definition str_int :: "int \<Rightarrow> string" where
  "str_int i = (if i < 0 then CHR ''-'' # digits (nat (- i)) else digits (nat i))"

text \<open>\<open>_validate_amount\<close>, returning the integer it has accepted.\<close>

definition validate_amount :: "amount_arg \<Rightarrow> exn + int" where
  "validate_amount amt =
     (case amt of
        NonInt \<Rightarrow> Inl (InvalidAmountError ''Amount must be an integer (cents)'')
      | IntAmount a \<Rightarrow>
          if a < MIN_AMOUNT_CENTS
          then Inl (InvalidAmountError
                      (''Amount must be at least '' @ str_int MIN_AMOUNT_CENTS @ '' cents''))
          else if a > MAX_AMOUNT_CENTS
          then Inl (InvalidAmountError
                      (''Amount cannot exceed '' @ str_int MAX_AMOUNT_CENTS @ '' cents''))
          else Inr a)"

definition or_empty :: "(string, string) dict option \<Rightarrow> (string, string) dict" where
  "or_empty m = (case m of None \<Rightarrow> [] | Some d \<Rightarrow> d)"

text \<open>\<open>_do_authorize\<close>, on the service and the collaborators' state.\<close>

definition do_authorize ::
  "'w Collaborators \<Rightarrow> string \<Rightarrow> int \<Rightarrow> Currency \<Rightarrow> string \<Rightarrow> (string, string) dict option
     \<Rightarrow> datetime \<Rightarrow> AuthorizationService \<times> 'w
     \<Rightarrow> (exn + Authorization) \<times> (AuthorizationService \<times> 'w)" where
  "do_authorize C token_id amt cur mid meta now = (\<lambda>(svc, w).
     (case use_token C token_id w of
        (Inl e, w1) \<Rightarrow> (Inl e, (svc, w1))
      | (Inr (token, number), w1) \<Rightarrow>
          (let (bank_response, w2) = bank_authorize C number amt cur w1
           in if \<not> approved bank_response
              then (Inl (AuthorizationError
                           (case BankAuthResponse.decline_message bank_response of
                              None \<Rightarrow> ''Authorization failed''
                            | Some m \<Rightarrow> if m = [] then ''Authorization failed'' else m)
                           (DeclineCode_value
                              (case BankAuthResponse.decline_code bank_response of
                                 None \<Rightarrow> CARD_DECLINED | Some c \<Rightarrow> c))),
                    (svc, w2))
              else
                (let (aid, w3) = generate C ''auth_'' 24 w2;
                     auth = \<lparr> Authorization.ident = aid,
                              amount = amt, currency = cur,
                              status = AuthorizationStatus.ACTIVE,
                              card_last_four = Token.card_last_four token,
                              card_brand = Token.card_brand token,
                              created_at = now,
                              expires_at = now + AUTH_HOLD_DAYS * us_per_day,
                              captured_at = None, voided_at = None, captured_amount = 0,
                              auth_code = BankAuthResponse.auth_code bank_response,
                              merchant_id = mid, metadata = or_empty meta \<rparr>
                 in (Inr auth,
                     (svc\<lparr> authorizations := AList.update aid auth (authorizations svc) \<rparr>,
                      w3))))))"

text \<open>
  \<open>AuthorizationService.authorize\<close>: the amount is validated first; then, when a
  non-empty idempotency key is given, \<open>_do_authorize\<close> runs through \<open>execute\<close> (whose
  value is the cached dictionary) and directly otherwise.
\<close>

definition AuthorizationService_authorize ::
  "'w Collaborators \<Rightarrow> ((string, py_value) dict \<Rightarrow> string) \<Rightarrow> AuthorizationService
     \<Rightarrow> string \<Rightarrow> amount_arg \<Rightarrow> Currency \<Rightarrow> string \<Rightarrow> (string, string) dict option
     \<Rightarrow> string option \<Rightarrow> datetime \<Rightarrow> 'w
     \<Rightarrow> (exn + (Authorization + cached option)) \<times> AuthorizationService \<times> 'w" where
  "AuthorizationService_authorize C hash_params svc token_id amt cur mid meta idempotency_key
       now w =
     (case validate_amount amt of
        Inl e \<Rightarrow> (Inl e, svc, w)
      | Inr a \<Rightarrow>
          if idempotency_key \<noteq> None \<and> idempotency_key \<noteq> Some []
          then (let (r, idem', (svc', w')) =
                      execute hash_params CachedAuthorization (idempotency svc)
                        (the idempotency_key)
                        (do_authorize C token_id a cur mid meta now)
                        [(''token_id'', PyStr token_id), (''amount'', amount_value amt),
                         (''currency'', PyStr (Currency_value cur))]
                        now (svc, w)
                in (map_sum (\<lambda>e. e) Inr r, svc'\<lparr> idempotency := idem' \<rparr>, w'))
          else (let (r, (svc', w')) = do_authorize C token_id a cur mid meta now (svc, w)
                in (map_sum (\<lambda>e. e) Inl r, svc', w')))"




text \<open>
  \<open>_do_create_charge\<close>: the amount is validated here, inside the operation. A declined
  authorization gives a failed charge (a value, not an exception); with \<open>capture=False\<close>
  an authorization and an \<open>authorized\<close> charge are stored (the authorization takes the
  default expiry of the dataclass, seven days); otherwise the bank captures and a
  \<open>succeeded\<close> charge is stored.
\<close>

definition new_charge ::
  "string \<Rightarrow> int \<Rightarrow> Currency \<Rightarrow> PaymentStatus \<Rightarrow> Token \<Rightarrow> datetime \<Rightarrow> string
     \<Rightarrow> string option \<Rightarrow> (string, string) dict option \<Rightarrow> Charge" where
  "new_charge cid amt cur st token now mid desc meta =
     \<lparr> Charge.ident = cid, amount = amt, currency = cur, status = st,
       card_last_four = Token.card_last_four token,
       card_brand = Token.card_brand token,
       created_at = now,
       authorization_code = None, decline_code = None, decline_message = None,
       refunded = False, refunded_amount = 0, authorization_id = None,
       merchant_id = mid, description = desc, metadata = or_empty meta \<rparr>"

definition do_create_charge ::
  "'w Collaborators \<Rightarrow> string \<Rightarrow> amount_arg \<Rightarrow> Currency \<Rightarrow> bool \<Rightarrow> string \<Rightarrow> string option
     \<Rightarrow> (string, string) dict option \<Rightarrow> datetime \<Rightarrow> AuthorizationService \<times> 'w
     \<Rightarrow> (exn + Charge) \<times> (AuthorizationService \<times> 'w)" where
  "do_create_charge C token_id amt cur capture mid desc meta now = (\<lambda>(svc, w).
     (case validate_amount amt of
        Inl e \<Rightarrow> (Inl e, (svc, w))
      | Inr a \<Rightarrow>
          (case use_token C token_id w of
             (Inl e, w1) \<Rightarrow> (Inl e, (svc, w1))
           | (Inr (token, number), w1) \<Rightarrow>
               (let (bank_response, w2) = bank_authorize C number a cur w1
                in if \<not> approved bank_response
                   then
                     (let (cid, w3) = generate C ''ch_'' 24 w2;
                          charge = (new_charge cid a cur PaymentStatus.FAILED token now mid desc meta)
                                     \<lparr> Charge.decline_code :=
                                         BankAuthResponse.decline_code bank_response,
                                       Charge.decline_message :=
                                         BankAuthResponse.decline_message bank_response \<rparr>
                      in (Inr charge,
                          (svc\<lparr> charges := AList.update cid charge (charges svc) \<rparr>, w3)))
                   else if \<not> capture
                   then
                     (let (aid, w3) = generate C ''auth_'' 24 w2;
                          auth = \<lparr> Authorization.ident = aid,
                                   amount = a, currency = cur,
                                   status = AuthorizationStatus.ACTIVE,
                                   card_last_four = Token.card_last_four token,
                                   card_brand = Token.card_brand token,
                                   created_at = now,
                                   expires_at = now + 7 * us_per_day,
                                   captured_at = None, voided_at = None, captured_amount = 0,
                                   auth_code = BankAuthResponse.auth_code bank_response,
                                   merchant_id = mid, metadata = or_empty meta \<rparr>;
                          (cid, w4) = generate C ''ch_'' 24 w3;
                          charge = (new_charge cid a cur AUTHORIZED token now mid desc meta)
                                     \<lparr> authorization_code :=
                                         BankAuthResponse.auth_code bank_response,
                                       authorization_id := Some aid \<rparr>
                      in (Inr charge,
                          (svc\<lparr> authorizations :=
                                  AList.update aid auth (authorizations svc),
                                charges := AList.update cid charge (charges svc) \<rparr>, w4)))
                   else
                     (let (ok, w3) =
                            bank_capture C (BankAuthResponse.auth_code bank_response) a w2
                      in if \<not> ok
                         then (Inl (CaptureError ''Bank declined capture''), (svc, w3))
                         else
                           (let (cid, w4) = generate C ''ch_'' 24 w3;
                                charge = (new_charge cid a cur SUCCEEDED token now mid desc meta)
                                           \<lparr> authorization_code :=
                                               BankAuthResponse.auth_code bank_response \<rparr>
                            in (Inr charge,
                                (svc\<lparr> charges := AList.update cid charge (charges svc) \<rparr>,
                                 w4))))))))"

text \<open>
  \<open>AuthorizationService.create_charge\<close>: with a non-empty idempotency key the whole of
  \<open>_do_create_charge\<close>, its validation included, runs through \<open>execute\<close>.
\<close>

definition create_charge ::
  "'w Collaborators \<Rightarrow> ((string, py_value) dict \<Rightarrow> string) \<Rightarrow> AuthorizationService
     \<Rightarrow> string \<Rightarrow> amount_arg \<Rightarrow> Currency \<Rightarrow> bool \<Rightarrow> string \<Rightarrow> string option
     \<Rightarrow> (string, string) dict option \<Rightarrow> string option \<Rightarrow> datetime \<Rightarrow> 'w
     \<Rightarrow> (exn + (Charge + cached option)) \<times> AuthorizationService \<times> 'w" where
  "create_charge C hash_params svc token_id amt cur capture mid desc meta idempotency_key
       now w =
     (if idempotency_key \<noteq> None \<and> idempotency_key \<noteq> Some []
      then (let (r, idem', (svc', w')) =
                  execute hash_params CachedCharge (idempotency svc) (the idempotency_key)
                    (do_create_charge C token_id amt cur capture mid desc meta now)
                    [(''token_id'', PyStr token_id), (''amount'', amount_value amt),
                     (''currency'', PyStr (Currency_value cur)), (''capture'', PyBool capture)]
                    now (svc, w)
            in (map_sum (\<lambda>e. e) Inr r, svc'\<lparr> idempotency := idem' \<rparr>, w'))
      else (let (r, (svc', w')) =
                  do_create_charge C token_id amt cur capture mid desc meta now (svc, w)
            in (map_sum (\<lambda>e. e) Inl r, svc', w')))"

definition new_AuthorizationService :: AuthorizationService where
  "new_AuthorizationService =
     \<lparr> authorizations = [], charges = [], idempotency = new_IdempotencyService \<rparr>"

subsection \<open>The life of an authorization\<close>












text \<open>The parameter dictionary \<open>create_charge\<close> hashes.\<close>

definition charge_params ::
  "string \<Rightarrow> amount_arg \<Rightarrow> Currency \<Rightarrow> bool \<Rightarrow> (string, py_value) dict" where
  "charge_params token_id amt cur capture =
     [(''token_id'', PyStr token_id), (''amount'', amount_value amt),
      (''currency'', PyStr (Currency_value cur)), (''capture'', PyBool capture)]"

section \<open>Properties of the issuing bank\<close>

subsection \<open>Sums of holds under dictionary updates\<close>

lemma sum_update:
  "sum_list (map snd (AList.update k v hs)) =
     sum_list (map snd hs) + v - (case map_of hs k of None \<Rightarrow> 0 | Some old \<Rightarrow> (old::int))"
  by (induction hs) (auto split: option.splits)

lemma sum_delete_le:
  "\<forall>v\<in>set (map snd hs). 0 \<le> v \<Longrightarrow> map_of hs k = Some (held::int) \<Longrightarrow>
     sum_list (map snd (AList.delete k hs)) + held \<le> sum_list (map snd hs)"
proof (induction hs)
  case Nil
  then show ?case by simp
next
  case (Cons p hs)
  have nn: "0 \<le> sum_list (map snd (AList.delete k hs))"
    using Cons.prems(1) by (intro sum_list_nonneg) (auto simp: AList.delete_eq)
  have le: "sum_list (map snd (AList.delete k hs)) \<le> sum_list (map snd hs)"
    using Cons.prems(1) by (induction hs) auto
  show ?case
  proof (cases "fst p = k")
    case True
    then show ?thesis using Cons.prems le by (cases p) auto
  next
    case False
    then show ?thesis using Cons by (cases p) auto
  qed
qed

lemma nonneg_delete:
  "\<forall>v\<in>set (map snd hs). (0::int) \<le> v \<Longrightarrow> \<forall>v\<in>set (map snd (AList.delete k hs)). 0 \<le> v"
  by (auto simp: AList.delete_eq)

lemma nonneg_update:
  "\<forall>v\<in>set (map snd hs). (0::int) \<le> v \<Longrightarrow> 0 \<le> a \<Longrightarrow>
     \<forall>v\<in>set (map snd (AList.update k a hs)). 0 \<le> v"
  by (induction hs) auto

lemma capture_accounts_extract:
  "capture_accounts accs h amt =
     (case List.extract (\<lambda>(k, a). map_of (holds a) h \<noteq> None) accs of
        None \<Rightarrow> (False, accs)
      | Some (pre, (k, a), post) \<Rightarrow>
          if amt > the (map_of (holds a) h) then (False, accs)
          else (True, pre @ (k, apply_charge a h amt) # post))"
proof (induction accs)
  case Nil
  then show ?case by (simp add: extract_Nil_code)
next
  case (Cons p accs)
  obtain k a where p: "p = (k, a)" by (cases p)
  show ?case
  proof (cases "map_of (holds a) h")
    case None
    then show ?thesis
      using Cons by (auto simp: p extract_Cons_code split: option.splits prod.splits)
  next
    case (Some held)
    then show ?thesis by (simp add: p extract_Cons_code)
  qed
qed

lemma extract_holds:
  "List.extract (\<lambda>(k, a). map_of (holds a) h \<noteq> None) accs = Some (pre, (k, a), post)
     \<Longrightarrow> \<exists>held. map_of (holds a) h = Some held"
  by (auto simp: extract_Some_iff)

subsection \<open>Capture\<close>

text \<open>
  C4. \<open>IssuingBank.capture(hold_id, amount)\<close> fails exactly when no account holds
  \<open>hold_id\<close> or the amount exceeds the held amount of the first account that does, and then
  changes nothing. Otherwise it succeeds: that account loses the whole hold, also when the
  amount is below the held amount (every other hold stays), a credit account's
  \<open>current_balance\<close> grows by the amount, a debit or prepaid account's
  \<open>account_balance\<close> shrinks by it, and every other account is as before.
  \<open>List.extract\<close> splits the accounts at the first one holding the id.
\<close>

theorem IssuingBank_capture_correct:
  "(case List.extract (\<lambda>(k, a). map_of (holds a) h \<noteq> None) (accounts bank) of
      None \<Rightarrow> IssuingBank_capture bank h amt = (False, bank)
    | Some (pre, (k, a), post) \<Rightarrow>
        (case map_of (holds a) h of
           None \<Rightarrow> False
         | Some held_amount \<Rightarrow>
             if amt > held_amount then IssuingBank_capture bank h amt = (False, bank)
             else (\<exists>a'. IssuingBank_capture bank h amt =
                          (True, bank\<lparr> accounts := pre @ (k, a') # post \<rparr>)
                     \<and> map_of (holds a') = (map_of (holds a))(h := None)
                     \<and> (if account_type a = CREDIT
                         then current_balance a' = current_balance a + amt
                              \<and> account_balance a' = account_balance a
                         else account_balance a' = account_balance a - amt
                              \<and> current_balance a' = current_balance a)
                     \<and> a' = a\<lparr> holds := holds a', current_balance := current_balance a',
                                account_balance := account_balance a' \<rparr>)))"
proof (cases "List.extract (\<lambda>(k, a). map_of (holds a) h \<noteq> None) (accounts bank)")
  case None
  then show ?thesis
    by (simp add: IssuingBank_capture_def capture_accounts_extract)
next
  case (Some t)
  obtain pre k a post where t: "t = (pre, (k, a), post)" by (cases t) auto
  have "\<exists>held. map_of (holds a) h = Some held"
    using Some unfolding t by (rule extract_holds)
  then obtain held where held: "map_of (holds a) h = Some held" ..
  show ?thesis
  proof (cases "amt > held")
    case True
    then show ?thesis
      using Some t held by (simp add: IssuingBank_capture_def capture_accounts_extract)
  next
    case False
    have "map_of (holds (apply_charge a h amt)) = (map_of (holds a))(h := None)"
      by (auto simp: apply_charge_def Let_def delete_conv')
    then show ?thesis
      using Some t held False
      by (auto simp: IssuingBank_capture_def capture_accounts_extract apply_charge_def Let_def
               intro!: exI[of _ "apply_charge a h amt"])
  qed
qed


theorem IssuingBank_capture_correct_witness:
  "\<exists>a'. IssuingBank_capture
          \<lparr> IssuingBank.bank_name = ''Demo Bank'',
            accounts = [(''4242424242424242'',
                         (test_account ''4242424242424242'' ''Test Success'')
                           \<lparr> holds := [(''auth_001'', 5000)] \<rparr>)],
            transaction_history = [] \<rparr> ''auth_001'' 3000
        = (True, \<lparr> IssuingBank.bank_name = ''Demo Bank'',
                   accounts = [(''4242424242424242'', a')],
                   transaction_history = [] \<rparr>)
      \<and> map_of (holds a') ''auth_001'' = None \<and> current_balance a' = 3000"
  using IssuingBank_capture_correct
          [where h = "''auth_001''" and amt = 3000 and bank =
              "\<lparr> IssuingBank.bank_name = ''Demo Bank'',
                 accounts = [(''4242424242424242'',
                              (test_account ''4242424242424242'' ''Test Success'')
                                \<lparr> holds := [(''auth_001'', 5000)] \<rparr>)],
                 transaction_history = [] \<rparr>"]
  by (auto simp: extract_Cons_code test_account_def)

subsection \<open>Available funds\<close>

lemma account_ok_charge:
  assumes "account_ok a" "map_of (holds a) h = Some held" "amt \<le> held"
  shows "account_ok (apply_charge a h amt)"
proof -
  have nn: "\<forall>v\<in>set (map snd (holds a)). 0 \<le> v" using assms(1) by (simp add: account_ok_def)
  have "sum_list (map snd (AList.delete h (holds a))) + held \<le> sum_list (map snd (holds a))"
    using nn assms(2) by (rule sum_delete_le)
  moreover have "\<forall>v\<in>set (map snd (AList.delete h (holds a))). 0 \<le> v"
    using nn by (rule nonneg_delete)
  ultimately show ?thesis
    using assms
    by (auto simp: account_ok_def apply_charge_def available_def available_credit_def
                   available_balance_def Let_def)
qed

lemma account_ok_void:
  assumes "account_ok a"
  shows "account_ok (a\<lparr> holds := AList.delete h (holds a) \<rparr>)"
proof -
  have nn: "\<forall>v\<in>set (map snd (holds a)). 0 \<le> v" using assms(1) by (simp add: account_ok_def)
  have "sum_list (map snd (AList.delete h (holds a))) \<le> sum_list (map snd (holds a))"
  proof (cases "map_of (holds a) h")
    case None
    then show ?thesis by (simp add: map_of_eq_None_iff)
  next
    case (Some held)
    have "0 \<le> held" using nn Some by (auto dest!: map_of_SomeD) 
    then show ?thesis using sum_delete_le[OF nn Some] by simp
  qed
  moreover have "\<forall>v\<in>set (map snd (AList.delete h (holds a))). 0 \<le> v"
    using nn by (rule nonneg_delete)
  ultimately show ?thesis
    using assms
    by (auto simp: account_ok_def available_def available_credit_def
                   available_balance_def Let_def)
qed

lemma account_ok_hold:
  assumes "account_ok a" "0 \<le> amt" "amt \<le> available a"
  shows "account_ok (a\<lparr> holds := AList.update h amt (holds a) \<rparr>)"
proof -
  have nn: "\<forall>v\<in>set (map snd (holds a)). 0 \<le> v" using assms(1) by (simp add: account_ok_def)
  have old: "0 \<le> (case map_of (holds a) h of None \<Rightarrow> 0 | Some old \<Rightarrow> old)"
    using nn by (auto split: option.splits dest!: map_of_SomeD)
  have "\<forall>v\<in>set (map snd (AList.update h amt (holds a))). 0 \<le> v"
    using nn assms(2) by (rule nonneg_update)
  then show ?thesis
    using assms old
    by (auto simp: account_ok_def available_def available_credit_def
                   available_balance_def Let_def sum_update)
qed

lemma capture_accounts_ok:
  "map_of accs c = Some a \<Longrightarrow> account_ok a \<Longrightarrow>
     \<exists>a'. map_of (snd (capture_accounts accs h amt)) c = Some a' \<and> account_ok a'"
proof (induction accs)
  case Nil
  then show ?case by simp
next
  case (Cons p accs)
  obtain k b where p: "p = (k, b)" by (cases p)
  show ?case
    using Cons
    by (auto simp: p account_ok_charge split: option.splits prod.splits)
qed

lemma void_accounts_ok:
  "map_of accs c = Some a \<Longrightarrow> account_ok a \<Longrightarrow>
     \<exists>a'. map_of (snd (void_accounts accs h)) c = Some a' \<and> account_ok a'"
proof (induction accs)
  case Nil
  then show ?case by simp
next
  case (Cons p accs)
  obtain k b where p: "p = (k, b)" by (cases p)
  show ?case
    using Cons
    by (auto simp: p account_ok_void split: option.splits prod.splits)
qed

lemma authorize_ok:
  assumes "card_ok bank c" "0 \<le> AuthorizationRequest.amount request"
    and "IssuingBank_authorize bank request now code = Inr (response, bank')"
  shows "card_ok bank' c"
  using assms
  by (auto simp: IssuingBank_authorize_def card_ok_def update_conv' account_ok_hold
           split: option.splits if_splits sum.splits)

lemma step_ok: "card_ok bank c \<Longrightarrow> nonneg_op x \<Longrightarrow> card_ok (step bank x) c"
proof (cases x)
  case (Authorize request now code)
  assume "card_ok bank c" "nonneg_op x"
  then show ?thesis
    using Authorize authorize_ok[of bank c request now code]
    by (auto split: sum.splits)
next
  case (Capture auth_id amt)
  assume "card_ok bank c" "nonneg_op x"
  then show ?thesis
    using Capture capture_accounts_ok[of "accounts bank" c _ auth_id amt]
    by (auto simp: card_ok_def IssuingBank_capture_def split: option.splits prod.splits)
next
  case (Void auth_id)
  assume "card_ok bank c" "nonneg_op x"
  then show ?thesis
    using Void void_accounts_ok[of "accounts bank" c _ auth_id]
    by (auto simp: card_ok_def IssuingBank_void_def split: option.splits prod.splits)
qed

lemma run_ops_ok:
  "card_ok bank c \<Longrightarrow> \<forall>x\<in>set ops. nonneg_op x \<Longrightarrow> \<forall>b\<in>set (run_ops bank ops). card_ok b c"
proof (induction ops arbitrary: bank)
  case Nil
  then show ?case by simp
next
  case (Cons x xs)
  have s: "card_ok (step bank x) c" using Cons.prems by (simp add: step_ok)
  have "\<forall>b\<in>set (run_ops (step bank x) xs). card_ok b c"
    using Cons.IH[OF s] Cons.prems(2) by simp
  then show ?case using s by simp
qed


text \<open>
  C1, as the claim states it, fails: \<open>authorize\<close> accepts a negative amount and stores it
  as a hold, a second authorization may then use the funds the negative hold adds, and
  voiding the negative hold leaves the account overdrawn. On the test account with limit
  10000 and balance 9900 the available funds are 100 before, and 150, 0 and -50 after the
  three calls.
\<close>

theorem available_negative_counterexample:
  "map_option available (map_of (accounts (new_IssuingBank ''Demo Bank'')) ''4000000000009995'')
     = Some 100
   \<and> map (\<lambda>b. map_option available (map_of (accounts b) ''4000000000009995''))
        (run_ops (new_IssuingBank ''Demo Bank'') negative_hold_ops)
     = [Some 150, Some 0, Some (- 50)]"
  by code_simp

text \<open>
  C1, amended. For every card account whose available funds and holds are non-negative
  initially, and every finite sequence of \<open>authorize\<close>, \<open>capture\<close> and \<open>void\<close>
  calls in which every authorization asks for a non-negative amount, the account is still
  there after each call and its available funds are non-negative.
\<close>

theorem available_nonneg_invariant:
  assumes "map_of (accounts bank) c = Some a"
    and "0 \<le> available a"
    and "\<forall>v\<in>set (map snd (holds a)). 0 \<le> v"
    and "\<forall>x\<in>set ops. nonneg_op x"
  shows "\<forall>b\<in>set (run_ops bank ops).
           \<exists>a'. map_of (accounts b) c = Some a' \<and> 0 \<le> available a'"
proof -
  have "card_ok bank c"
    using assms(1-3) by (simp add: card_ok_def account_ok_def)
  then have "\<forall>b\<in>set (run_ops bank ops). card_ok b c"
    using assms(4) by (rule run_ops_ok)
  then show ?thesis
    by (auto simp: card_ok_def account_ok_def split: option.splits)
qed

theorem available_nonneg_invariant_witness:
  "map_of (accounts (new_IssuingBank ''Demo Bank'')) ''4242424242424242''
     = Some ((test_account ''4242424242424242'' ''Test Success'')\<lparr> credit_limit := 1000000 \<rparr>)
   \<and> 0 \<le> available
            ((test_account ''4242424242424242'' ''Test Success'')\<lparr> credit_limit := 1000000 \<rparr>)
   \<and> list_all (\<lambda>v. 0 \<le> v) (map snd (holds
            ((test_account ''4242424242424242'' ''Test Success'')\<lparr> credit_limit := 1000000 \<rparr>)))
   \<and> list_all nonneg_op
         [Authorize (mk_request ''auth_001'' ''4242424242424242'' ''123'' 50000)
            63884332800000000 ''A1B2C3'',
          Capture ''auth_001'' 50000, Void ''auth_001'']
   \<and> list_all (\<lambda>b. \<exists>a'. map_of (accounts b) ''4242424242424242'' = Some a'
                          \<and> 0 \<le> available a')
         (run_ops (new_IssuingBank ''Demo Bank'')
            [Authorize (mk_request ''auth_001'' ''4242424242424242'' ''123'' 50000)
               63884332800000000 ''A1B2C3'',
             Capture ''auth_001'' 50000, Void ''auth_001''])"
proof -
  have h1: "map_of (accounts (new_IssuingBank ''Demo Bank'')) ''4242424242424242''
     = Some ((test_account ''4242424242424242'' ''Test Success'')\<lparr> credit_limit := 1000000 \<rparr>)"
    by (simp add: new_IssuingBank_def setup_test_accounts_def)
  have h2: "0 \<le> available
            ((test_account ''4242424242424242'' ''Test Success'')\<lparr> credit_limit := 1000000 \<rparr>)"
    by (simp add: available_def available_credit_def test_account_def)
  have h3: "\<forall>v\<in>set (map snd (holds
            ((test_account ''4242424242424242'' ''Test Success'')\<lparr> credit_limit := 1000000 \<rparr>))).
          0 \<le> v"
    by (simp add: test_account_def)
  have h4: "\<forall>x\<in>set [Authorize (mk_request ''auth_001'' ''4242424242424242'' ''123'' 50000)
                     63884332800000000 ''A1B2C3'',
                   Capture ''auth_001'' 50000, Void ''auth_001'']. nonneg_op x"
    by (simp add: mk_request_def)
  show ?thesis
    using available_nonneg_invariant [OF h1 h2 h3 h4] h1 h2 h3 h4
    unfolding list_all_iff by blast
qed

subsection \<open>Expiry\<close>

lemma grace_is_month_end_for_31_days:
  assumes "days_in_month y m = 31" and "datetime_ymd y m 1 = Inr exp_date"
  shows "exp_date + 31 * us_per_day = end_of_month y m"
  using assms
  by (auto simp: datetime_ymd_def end_of_month_def algebra_simps split: if_splits)


section \<open>Properties of the card network\<close>




lemma net_step_not_approved:
  "not_approved net tid \<Longrightarrow> not_route_of tid x \<Longrightarrow> not_approved (net_step net x) tid"
proof (cases x)
  case (Route acquirer request tid' now code)
  assume "not_approved net tid" "not_route_of tid x"
  then show ?thesis
    using Route
    by (auto simp: not_approved_def route_authorization_def update_conv' Let_def
             split: sum.splits option.splits if_splits prod.splits)
next
  case (NetCapture tid' amt)
  assume "not_approved net tid" "not_route_of tid x"
  then show ?thesis
    using NetCapture
    by (auto simp: not_approved_def CardNetwork_capture_def update_conv' Let_def
             split: option.splits if_splits prod.splits)
next
  case (NetVoid tid')
  assume "not_approved net tid" "not_route_of tid x"
  then show ?thesis
    using NetVoid
    by (auto simp: not_approved_def CardNetwork_void_def update_conv' Let_def
             split: option.splits if_splits prod.splits)
qed

lemma net_run_not_approved:
  "not_approved net tid \<Longrightarrow> \<forall>x\<in>set ops. not_route_of tid x
     \<Longrightarrow> not_approved (net_run net ops) tid"
proof (induction ops arbitrary: net)
  case Nil
  then show ?case by simp
next
  case (Cons x xs)
  have "not_approved (net_step net x) tid"
    using Cons.prems by (simp add: net_step_not_approved)
  then show ?case using Cons by simp
qed

lemma capture_not_approved:
  "not_approved net tid \<Longrightarrow>
     CardNetwork_capture net tid amt = (Inl ''Transaction not authorized'', net)"
  by (auto simp: not_approved_def CardNetwork_capture_def split: option.splits)

lemma capture_success:
  assumes "CardNetwork_capture net tid amt = (Inr captured, net')"
  shows "map_option NetworkTransaction.status (map_of (CardNetwork.transactions net) tid)
           = Some ''approved''
         \<and> map_option NetworkTransaction.status (map_of (CardNetwork.transactions net') tid)
           = Some ''captured''"
  using assms
  by (auto simp: CardNetwork_capture_def update_conv' Let_def
           split: option.splits if_splits prod.splits)

text \<open>
  C10. When \<open>CardNetwork.capture\<close> succeeds for a transaction id, the logged status was
  \<open>approved\<close> before and is \<open>captured\<close> after; and after any further captures, voids
  and authorizations of other transaction ids, a capture of the same id fails with
  \<open>Transaction not authorized\<close> and changes nothing: no transaction is captured twice.
\<close>

theorem CardNetwork_capture_once:
  assumes "CardNetwork_capture net tid amt = (Inr captured, net')"
    and "\<forall>x\<in>set ops. not_route_of tid x"
  shows "map_option NetworkTransaction.status (map_of (CardNetwork.transactions net) tid)
           = Some ''approved''
         \<and> map_option NetworkTransaction.status (map_of (CardNetwork.transactions net') tid)
           = Some ''captured''
         \<and> CardNetwork_capture (net_run net' ops) tid amt2
           = (Inl ''Transaction not authorized'', net_run net' ops)"
proof -
  have s: "map_option NetworkTransaction.status (map_of (CardNetwork.transactions net) tid)
           = Some ''approved''
         \<and> map_option NetworkTransaction.status (map_of (CardNetwork.transactions net') tid)
           = Some ''captured''"
    using assms(1) by (rule capture_success)
  then have "not_approved net' tid"
    by (auto simp: not_approved_def split: option.splits)
  then have "not_approved (net_run net' ops) tid"
    using assms(2) by (rule net_run_not_approved)
  then show ?thesis using s by (simp add: capture_not_approved)
qed


theorem CardNetwork_capture_once_witness:
  "CardNetwork_capture visa_authorized ''nt_1'' 10000
     = (Inr 10000, snd (CardNetwork_capture visa_authorized ''nt_1'' 10000))
   \<and> list_all (not_route_of ''nt_1'') [NetVoid ''nt_1'', NetCapture ''nt_1'' 10000]
   \<and> CardNetwork_capture
        (net_run (snd (CardNetwork_capture visa_authorized ''nt_1'' 10000))
           [NetVoid ''nt_1'', NetCapture ''nt_1'' 10000]) ''nt_1'' 10000
     = (Inl ''Transaction not authorized'',
        net_run (snd (CardNetwork_capture visa_authorized ''nt_1'' 10000))
          [NetVoid ''nt_1'', NetCapture ''nt_1'' 10000])"
proof -
  have f: "fst (CardNetwork_capture visa_authorized ''nt_1'' 10000) = Inr 10000"
    by code_simp
  have h1: "CardNetwork_capture visa_authorized ''nt_1'' 10000
     = (Inr 10000, snd (CardNetwork_capture visa_authorized ''nt_1'' 10000))"
    using f by (metis prod.collapse)
  have h2: "\<forall>x\<in>set [NetVoid ''nt_1'', NetCapture ''nt_1'' 10000]. not_route_of ''nt_1'' x"
    by simp
  show ?thesis
    using CardNetwork_capture_once [OF h1 h2, of 10000] h1 by simp
qed

section \<open>Properties of the acquiring bank\<close>

lemma batch_pending_eq:
  "batch_pending txns now ids ta tf =
     (map (\<lambda>(k, t). (k, if settlement_status t = SettlementStatus.PENDING
                         then t\<lparr> settlement_status := BATCHED,
                                settlement_date := Some (now + 2 * us_per_day) \<rparr>
                         else t)) txns,
      ids @ map AcquirerTransaction.transaction_id
              (filter (\<lambda>t. settlement_status t = SettlementStatus.PENDING) (map snd txns)),
      ta + sum_list (map AcquirerTransaction.amount
              (filter (\<lambda>t. settlement_status t = SettlementStatus.PENDING) (map snd txns))),
      tf + sum_list (map AcquirerTransaction.fees
              (filter (\<lambda>t. settlement_status t = SettlementStatus.PENDING) (map snd txns))))"
proof (induction txns arbitrary: ids ta tf)
  case Nil
  then show ?case by simp
next
  case (Cons p txns)
  obtain k t where p: "p = (k, t)" by (cases p)
  show ?case by (simp add: p Cons Let_def)
qed

lemma sum_list_diff:
  "sum_list (map (\<lambda>t. f t - g t) xs) = sum_list (map f xs) - (sum_list (map g xs) :: int)"
  by (induction xs) auto

text \<open>
  C8. \<open>create_settlement_batch\<close> turns exactly the transactions whose settlement status
  is \<open>pending\<close> into \<open>batched\<close> ones with the settlement date two days after now,
  leaves the others as they are, and returns (and appends to the batches) a batch listing
  the ids of the pending transactions whose \<open>total_amount\<close>, \<open>total_fees\<close> and
  \<open>net_amount\<close> are the sums of their amounts, of their fees and of amount minus fee.
  The scenario instance: pending transactions (10000, fee 320) and (5000, fee 175) give
  15000, 495 and 14505, and both end batched.
\<close>

theorem create_settlement_batch_totals:
  "(let pending = filter (\<lambda>t. settlement_status t = SettlementStatus.PENDING)
                    (map snd (AcquiringBank.transactions bank));
        (batch, bank') = create_settlement_batch bank batch_id now
    in AcquiringBank.transactions bank' =
         map (\<lambda>(k, t). (k, if settlement_status t = SettlementStatus.PENDING
                             then t\<lparr> settlement_status := BATCHED,
                                    settlement_date := Some (now + 2 * us_per_day) \<rparr>
                             else t)) (AcquiringBank.transactions bank)
       \<and> SettlementBatch.transactions batch = map AcquirerTransaction.transaction_id pending
       \<and> total_amount batch = sum_list (map AcquirerTransaction.amount pending)
       \<and> total_fees batch = sum_list (map AcquirerTransaction.fees pending)
       \<and> SettlementBatch.net_amount batch =
           sum_list (map (\<lambda>t. AcquirerTransaction.amount t - AcquirerTransaction.fees t) pending)
       \<and> batches bank' = batches bank @ [batch])"
  by (simp add: create_settlement_batch_def batch_pending_eq Let_def sum_list_diff)

theorem create_settlement_batch_scenario:
  "(let (batch, bank') = create_settlement_batch scenario_bank ''batch_1'' 63884332800000000
    in total_amount batch = 15000 \<and> total_fees batch = 495
       \<and> SettlementBatch.net_amount batch = 14505
       \<and> SettlementBatch.transactions batch = [''txn_a'', ''txn_b'']
       \<and> map (\<lambda>(k, t). (settlement_status t, settlement_date t))
            (AcquiringBank.transactions bank')
          = [(BATCHED, Some 63884505600000000), (BATCHED, Some 63884505600000000)])"
  using create_settlement_batch_totals [of scenario_bank "''batch_1''" 63884332800000000]
  by (simp add: scenario_bank_def new_AcquiringBank_def pending_txn_def Let_def split_def
        us_per_day_def)


lemma AcquiringBank_capture_unknown:
  "map_of (AcquiringBank.transactions bank) txn_id = None \<Longrightarrow>
     AcquiringBank_capture bank txn_id amt = Inr (Inl ''Transaction not found'', bank)"
  by (simp add: AcquiringBank_capture_def)

lemma AcquiringBank_capture_settles:
  assumes "AcquiringBank_capture bank txn_id amt = Inr (Inr captured, bank')"
    and "map_of (AcquiringBank.transactions bank) txn_id = Some txn"
    and "map_of (merchants bank) (AcquirerTransaction.merchant_id txn) = Some merchant"
  shows "map_option pending_settlement
           (map_of (merchants bank') (AcquirerTransaction.merchant_id txn))
         = Some (pending_settlement merchant + AcquirerTransaction.net_amount txn)"
  using assms
  by (auto simp: AcquiringBank_capture_def Let_def update_conv'
           split: list.splits prod.splits sum.splits option.splits)

text \<open>
  C6. \<open>AcquiringBank.capture\<close> fails for an unknown transaction id and a successful
  capture adds the net amount to the merchant's pending settlement (the two lemmas
  above), but the capture is always sent to the first network of the bank, Visa, and not
  to the network that authorized the transaction. A Mastercard payment authorized through
  \<open>process_authorization\<close> is logged as \<open>approved\<close> by the Mastercard network only; its
  capture asks the Visa network, which answers \<open>Transaction not found\<close>, and the merchant's
  pending settlement stays 0.
\<close>

theorem mastercard_capture_not_found:
  "(case process_authorization (new_AcquiringBank ''Demo Payments Inc'') ''merch_demo123''
           ''5555555555554444'' 12 2025 ''123'' 10000 ''USD'' ''txn_1'' ''nt_1''
           63884332800000000 ''A1B2C3'' of
      Inr (Authorized payment, bank1) \<Rightarrow>
        (case AcquiringBank_capture bank1 ''txn_1'' None of
           Inr (outcome, bank2) \<Rightarrow>
             Some (map_option (\<lambda>n. map_option NetworkTransaction.status
                                     (map_of (CardNetwork.transactions n) ''nt_1''))
                     (map_of (networks bank1) NetworkType.MASTERCARD),
                   map_option (\<lambda>n. map_option NetworkTransaction.status
                                     (map_of (CardNetwork.transactions n) ''nt_1''))
                     (map_of (networks bank1) NetworkType.VISA),
                   outcome,
                   map_option pending_settlement (map_of (merchants bank2) ''merch_demo123''))
         | Inl e \<Rightarrow> None)
    | _ \<Rightarrow> None)
   = Some (Some (Some ''approved''), Some None, Inl ''Transaction not found'', Some 0)"
  by code_simp


section \<open>Properties of the idempotency service\<close>








section \<open>Properties of the gateway's authorizations\<close>












section \<open>Properties of amount validation\<close>

lemma str_int_50: "str_int 50 = ''50''"
  by (simp add: str_int_def digits.simps)

lemma invalid_amount_operation:
  "validate_amount amt = Inl e \<Longrightarrow>
     do_create_charge C token_id amt cur capture mid desc meta now (svc, w) = (Inl e, (svc, w))"
  by (simp add: do_create_charge_def)

lemma execute_state:
  "operation s = (r, s) \<Longrightarrow> snd (snd (execute H S idem k operation p now s)) = s"
  by (cases r)
     (auto simp: execute_def Let_def split_def split: option.splits)

lemma invalid_amount_no_bank_call:
  assumes "validate_amount amt = Inl e"
  shows "snd (snd (create_charge C H svc token_id amt cur capture mid desc meta ikey now w)) = w
         \<and> AuthorizationService_authorize C H svc token_id amt cur mid meta ikey now w
             = (Inl e, svc, w)"
proof -
  have op: "do_create_charge C token_id amt cur capture mid desc meta now (svc, w)
              = (Inl e, (svc, w))"
    using assms by (rule invalid_amount_operation)
  have "snd (snd (execute H CachedCharge (idempotency svc) (the ikey)
                    (do_create_charge C token_id amt cur capture mid desc meta now)
                    (charge_params token_id amt cur capture) now (svc, w))) = (svc, w)"
    using op by (rule execute_state)
  then show ?thesis
    using assms op
    by (simp add: create_charge_def AuthorizationService_authorize_def split_def Let_def
          charge_params_def)
qed

text \<open>
  C7. In both \<open>authorize\<close> and \<open>create_charge\<close> an invalid amount is refused before the
  tokenization service or the bank is called (lemma \<open>invalid_amount_no_bank_call\<close>), and
  \<open>authorize\<close> refuses it before the idempotency service is entered. But
  \<open>create_charge\<close> validates inside the idempotent operation: with an amount of 10
  cents under the key \<open>order_1\<close>, the call raises \<open>InvalidAmountError\<close> and leaves a
  failed record under the key, and a second call under the same key with the corrected
  amount of 100 cents raises \<open>IdempotencyConflict\<close> (or, should the two parameter hashes
  collide, \<open>IdempotencyFailedPreviously\<close>) and never reaches the bank. The same first call
  through \<open>authorize\<close> leaves the service as it was.
\<close>

theorem create_charge_invalid_amount_keeps_key:
  "(case create_charge C H new_AuthorizationService ''tok_1'' (IntAmount 10) USD True
           ''merch_demo123'' None None (Some ''order_1'') now w of
      (r1, svc1, w1) \<Rightarrow>
        r1 = Inl (InvalidAmountError ''Amount must be at least 50 cents'')
        \<and> w1 = w
        \<and> map_option IdempotencyRecord.status
             (map_of (store (idempotency svc1)) ''order_1'')
           = Some IdempotencyStatus.FAILED
        \<and> (case create_charge C H svc1 ''tok_1'' (IntAmount 100) USD True
                   ''merch_demo123'' None None (Some ''order_1'') now w1 of
              (r2, svc2, w2) \<Rightarrow>
                r2 = Inl (if H (charge_params ''tok_1'' (IntAmount 10) USD True)
                              = H (charge_params ''tok_1'' (IntAmount 100) USD True)
                          then IdempotencyFailedPreviously
                                 (failed_message (''InvalidAmountError'',
                                    ''Amount must be at least 50 cents''))
                          else IdempotencyConflict (conflict_message ''order_1''))
                \<and> w2 = w1))
   \<and> AuthorizationService_authorize C H new_AuthorizationService ''tok_1'' (IntAmount 10) USD
         ''merch_demo123'' None (Some ''order_1'') now w
       = (Inl (InvalidAmountError ''Amount must be at least 50 cents''),
          new_AuthorizationService, w)"
  by (simp add: create_charge_def AuthorizationService_authorize_def do_create_charge_def
        validate_amount_def str_int_50 execute_def store_get_def get_lock_def
        new_AuthorizationService_def new_IdempotencyService_def Let_def is_expired_def
        handle_existing_record_def charge_params_def us_per_hour_def MIN_AMOUNT_CENTS_def)


end
